theory Spec2Isabelle
  imports Complex_Main "HOL-Library.List_Lexorder" "HOL-Library.AList"
begin

section \<open>Python exceptions\<close>

text \<open>
  The exceptions the module can raise or let through.  \<open>UFOParseError\<close> and
  \<open>BezParseError\<close> are the module's own classes (both derive from ValueError); the
  string they carry is the fixed part of the message of the raising statement.
\<close>

datatype py_exception =
    KeyError string
  | IndexError
  | ValueError
  | AttributeError
  | ZeroDivisionError
  | TypeError
  | ParseError
  | UFOParseError string
  | BezParseError string

text \<open>\<open>d[k]\<close> on a Python dict: a missing key raises KeyError.\<close>

definition dict_getitem :: "('k \<rightharpoonup> 'v) \<Rightarrow> ('k \<Rightarrow> string) \<Rightarrow> 'k \<Rightarrow> py_exception + 'v" where
  "dict_getitem d repr k = (case d k of None \<Rightarrow> Inl (KeyError (repr k)) | Some v \<Rightarrow> Inr v)"

section \<open>UFOFontData.getGlyphID\<close>

text \<open>
  \<open>try: gid = self.orderMap[glyphName]\<close> with a handler for IndexError only: any other
  exception of the lookup leaves the function unchanged.
\<close>

definition getGlyphID :: "(string \<rightharpoonup> nat) \<Rightarrow> string \<Rightarrow> py_exception + nat" where
  "getGlyphID orderMap glyphName =
     (case dict_getitem orderMap id glyphName of
        Inr gid \<Rightarrow> Inr gid
      | Inl IndexError \<Rightarrow>
          Inl (UFOParseError ''Could not find glyph name in UFO font contents plist.'')
      | Inl e \<Rightarrow> Inl e)"


section \<open>GLIF data\<close>

text \<open>
  A number as Python holds it, an int or a float; \<open>num_value\<close> is the number itself
  (what \<open>float()\<close> gives).  Floats are modelled by the reals they stand for.
\<close>

datatype pynum = PyInt int | PyFloat real

fun num_value :: "pynum \<Rightarrow> real" where
  "num_value (PyInt i) = of_int i"
| "num_value (PyFloat r) = r"

text \<open>
  The \<open>name\<close> attribute of a point: a name of the source file, or a name the decoder
  makes from a base name and an index, \<open>base + str(index).zfill(4)\<close>.
\<close>

datatype point_name = SourceName string | IndexedName string nat

text \<open>
  A \<open>point\<close> element: \<open>x\<close> and \<open>y\<close> hold the number their text denotes, \<open>type\<close> and
  \<open>name\<close> may be absent.
\<close>

record point =
  px :: pynum
  py :: pynum
  ptype :: "string option"
  pname :: "point_name option"

section \<open>UFOTransform\<close>

text \<open>
  A \<open>component\<close> element of a GLIF outline: its \<open>base\<close> attribute and the six
  transform attributes, each absent or holding the number that \<open>float()\<close> reads from
  its text.
\<close>

record component =
  base :: "string option"
  xScale :: "real option"
  xyScale :: "real option"
  yxScale :: "real option"
  yScale :: "real option"
  xOffset :: "real option"
  yOffset :: "real option"

definition kTransformTagList :: "string list" where
  "kTransformTagList = [''xScale'', ''xyScale'', ''yxScale'', ''yScale'', ''xOffset'', ''yOffset'']"

text \<open>\<open>componentXML.attrib.get(tag, None)\<close> followed by \<open>float(val)\<close>.\<close>

definition transform_attrib :: "component \<Rightarrow> string \<Rightarrow> real option" where
  "transform_attrib c tag =
     (if tag = ''xScale'' then xScale c
      else if tag = ''xyScale'' then xyScale c
      else if tag = ''yxScale'' then yxScale c
      else if tag = ''yScale'' then yScale c
      else if tag = ''xOffset'' then xOffset c
      else if tag = ''yOffset'' then yOffset c
      else None)"

record UFOTransform =
  transformFactors :: "real list"
  isDefault :: bool
  isOffsetOnly :: bool

text \<open>The local variables of \<open>UFOTransform.__init__\<close> while it walks the tag list.\<close>

record init_state =
  factors :: "real list"
  dflt :: bool
  hasScale :: bool
  hasOffset :: bool

fun init_loop :: "component \<Rightarrow> string list \<Rightarrow> init_state \<Rightarrow> py_exception + init_state" where
  "init_loop c [] s = Inr s"
| "init_loop c (tag # tags) s =
     (if tag \<in> set [''xScale'', ''yScale''] then
        (case transform_attrib c tag of
           None \<Rightarrow> init_loop c tags (s\<lparr>factors := factors s @ [1]\<rparr>)
         | Some val \<Rightarrow>
             init_loop c tags
               (s\<lparr>factors := factors s @ [val], hasScale := (hasScale s \<or> val \<noteq> 1)\<rparr>))
      else
        (case transform_attrib c tag of
           None \<Rightarrow> init_loop c tags (s\<lparr>factors := factors s @ [0]\<rparr>)
         | Some val \<Rightarrow>
             if val \<noteq> 0 then
               (if tag \<in> set [''xyScale'', ''yxScale''] then
                  init_loop c tags
                    (s\<lparr>factors := factors s @ [val], dflt := False, hasScale := True\<rparr>)
                else if tag \<in> set [''xOffset'', ''yOffset''] then
                  init_loop c tags
                    (s\<lparr>factors := factors s @ [val], dflt := False, hasOffset := True\<rparr>)
                else Inl (UFOParseError ''Unknown tag in component.''))
             else init_loop c tags (s\<lparr>factors := factors s @ [val]\<rparr>)))"

definition UFOTransform_init :: "component \<Rightarrow> py_exception + UFOTransform" where
  "UFOTransform_init c =
     (case init_loop c kTransformTagList
             \<lparr>factors = [], dflt = True, hasScale = False, hasOffset = False\<rparr> of
        Inl e \<Rightarrow> Inl e
      | Inr s \<Rightarrow>
          Inr \<lparr>transformFactors = factors s,
               isDefault = (if hasScale s \<or> hasOffset s then False else dflt s),
               isOffsetOnly = (if hasScale s then False else True)\<rparr>)"

text \<open>
  \<open>self.concat(transform)\<close>: the receiver is updated in place; the model returns the
  updated receiver.
\<close>

definition UFOTransform_concat :: "UFOTransform \<Rightarrow> UFOTransform option \<Rightarrow> UFOTransform" where
  "UFOTransform_concat self transform =
     (case transform of
        None \<Rightarrow> self
      | Some t \<Rightarrow>
          if isDefault t then self
          else
            let tfCur = transformFactors self; tfPrev = transformFactors t in
            if isOffsetOnly t then
              self\<lparr>transformFactors :=
                     (tfCur[4 := tfCur ! 4 + tfPrev ! 4])[5 := tfCur ! 5 + tfPrev ! 5],
                   isDefault := False\<rparr>
            else
              self\<lparr>transformFactors :=
                     [tfCur ! 0 * tfPrev ! 0 + tfCur ! 1 * tfPrev ! 2,
                      tfCur ! 0 * tfPrev ! 1 + tfCur ! 1 * tfPrev ! 3,
                      tfCur ! 2 * tfPrev ! 0 + tfCur ! 3 * tfPrev ! 2,
                      tfCur ! 2 * tfPrev ! 1 + tfCur ! 3 * tfPrev ! 3,
                      tfCur ! 4 * tfPrev ! 0 + tfCur ! 5 * tfPrev ! 2 + tfPrev ! 4,
                      tfCur ! 4 * tfPrev ! 1 + tfCur ! 5 * tfPrev ! 3 + tfPrev ! 5],
                   isOffsetOnly := (isOffsetOnly self \<and> isOffsetOnly t),
                   isDefault := False\<rparr>)"

definition UFOTransform_apply :: "UFOTransform \<Rightarrow> real \<Rightarrow> real \<Rightarrow> real \<times> real" where
  "UFOTransform_apply self x y =
     (let tfCur = transformFactors self in
      if isOffsetOnly self then (x + tfCur ! 4, y + tfCur ! 5)
      else (x * tfCur ! 0 + y * tfCur ! 2 + tfCur ! 4,
            x * tfCur ! 1 + y * tfCur ! 3 + tfCur ! 5))"

text \<open>
  The transforms the program can hold: one built from a component element, or a held
  one after \<open>concat\<close> with another held one (or with None).
\<close>

inductive reachable :: "UFOTransform \<Rightarrow> bool" where
  reach_init: "UFOTransform_init c = Inr t \<Longrightarrow> reachable t"
| reach_concat_None: "reachable s \<Longrightarrow> reachable (UFOTransform_concat s None)"
| reach_concat: "reachable s \<Longrightarrow> reachable t \<Longrightarrow> reachable (UFOTransform_concat s (Some t))"

text \<open>The 2x2 linear part (the first four factors) is the identity matrix.\<close>

definition linear_is_identity :: "UFOTransform \<Rightarrow> bool" where
  "linear_is_identity t = (take 4 (transformFactors t) = [1, 0, 0, 1])"

text \<open>Two component elements: a scaling by 2 and a scaling by 1/2.\<close>

definition comp_double :: component where
  "comp_double = \<lparr>base = Some ''a'', xScale = Some 2, xyScale = None, yxScale = None,
                  yScale = Some 2, xOffset = None, yOffset = None\<rparr>"

definition comp_half :: component where
  "comp_half = \<lparr>base = Some ''b'', xScale = Some (1/2), xyScale = None, yxScale = None,
                yScale = Some (1/2), xOffset = None, yOffset = None\<rparr>"

definition comp_shift :: component where
  "comp_shift = \<lparr>base = Some ''c'', xScale = None, xyScale = None, yxScale = None,
                 yScale = None, xOffset = Some 3, yOffset = Some 4\<rparr>"

definition t_shift :: UFOTransform where
  "t_shift = \<lparr>transformFactors = [1, 0, 0, 1, 3, 4], isDefault = False, isOffsetOnly = True\<rparr>"

definition t_double :: UFOTransform where
  "t_double = \<lparr>transformFactors = [2, 0, 0, 2, 0, 0], isDefault = False, isOffsetOnly = False\<rparr>"

definition t_half :: UFOTransform where
  "t_half = \<lparr>transformFactors = [1/2, 0, 0, 1/2, 0, 0], isDefault = False, isOffsetOnly = False\<rparr>"


section \<open>Outlines and the font object\<close>

text \<open>
  The children of an \<open>outline\<close> element as the encoder sees them: contours (with their
  children, which are taken to be \<open>point\<close> elements that carry \<open>x\<close> and \<open>y\<close>),
  components, and elements with any other tag.
\<close>

datatype outline_item = Contour "point list" | Component component | OtherElement

type_synonym outline = "outline_item list"

text \<open>
  The same elements as the hash builder sees them, with the text of every attribute.
\<close>

datatype xml = Element (tag: string) (attrib: "(string \<times> string) list") (children: "xml list")

definition kAutohintName :: string where
  "kAutohintName = ''autohint''"

definition kAdobHashMapVersionName :: string where
  "kAdobHashMapVersionName = ''hashMapVersion''"

definition kAdobHashMapVersion :: "int \<times> int" where
  "kAdobHashMapVersion = (1, 0)"

text \<open>
  A value of the hash map: the version marker \<open>(major, minor)\<close> or a glyph's entry
  \<open>[srcHash, historyList]\<close>.
\<close>

datatype hash_entry = VersionEntry int int | GlyphEntry string "string list"

datatype log_record =
    LogInfo string
  | LogError string "string list" string

text \<open>
  The fields of \<open>UFOFontData\<close> that the modelled methods use, and the part of the
  environment they touch: the set of existing paths, the parsed content of the hash map
  file (None when the file does not exist), what parsing the GLIF file at a path gives
  (its \<open>outline\<close> element, if any), and the log.  \<open>curSrcDir\<close>, which
  \<open>getGlyphSrcPath\<close> sets and no modelled method reads, is left out.
\<close>

record UFOFontData =
  parentPath :: string
  glyphMap :: "(string \<times> string) list"
  processedLayerGlyphMap :: "(string \<times> string) list"
  useHashMap :: bool
  hashMap :: "(string \<times> hash_entry) list"
  hashMapChanged :: bool
  glyphDefaultDir :: string
  glyphLayerDir :: string
  requiredHistory :: "string list"
  useProcessedLayer :: bool
  deletedGlyph :: bool
  allowDecimalCoords :: bool
  files :: "string set"
  hashMapFile :: "(string \<times> hash_entry) list option"
  glifOutline :: "string \<rightharpoonup> outline option"
  glifXML :: "string \<rightharpoonup> xml option"
  logged :: "log_record list"

text \<open>\<open>os.path.join\<close> of two parts (posixpath).\<close>

definition os_path_join :: "string \<Rightarrow> string \<Rightarrow> string" where
  "os_path_join a b =
     (if b \<noteq> [] \<and> hd b = CHR ''/'' then b
      else if a = [] \<or> last a = CHR ''/'' then a @ b
      else a @ ''/'' @ b)"

definition getGlyphDefaultPath :: "UFOFontData \<Rightarrow> string \<Rightarrow> py_exception + string" where
  "getGlyphDefaultPath self glyphName =
     (case dict_getitem (map_of (glyphMap self)) id glyphName of
        Inl e \<Rightarrow> Inl e
      | Inr glyphFileName \<Rightarrow> Inr (os_path_join (glyphDefaultDir self) glyphFileName))"

definition getGlyphSrcPath :: "UFOFontData \<Rightarrow> string \<Rightarrow> py_exception + string" where
  "getGlyphSrcPath self glyphName =
     (case dict_getitem (map_of (glyphMap self)) id glyphName of
        Inl e \<Rightarrow> Inl e
      | Inr glyphFileName \<Rightarrow>
          (case (if useProcessedLayer self \<and> processedLayerGlyphMap self \<noteq> []
                 then map_of (processedLayerGlyphMap self) glyphName else None) of
             Some processedFileName \<Rightarrow>
               if os_path_join (glyphLayerDir self) processedFileName \<in> files self
               then Inr (os_path_join (glyphLayerDir self) processedFileName)
               else Inr (os_path_join (glyphDefaultDir self) processedFileName)
           | None \<Rightarrow> Inr (os_path_join (glyphDefaultDir self) glyphFileName)))"

definition getGlyphProcessedPath :: "UFOFontData \<Rightarrow> string \<Rightarrow> string option" where
  "getGlyphProcessedPath self glyphName =
     (if processedLayerGlyphMap self \<noteq> [] then
        (case map_of (processedLayerGlyphMap self) glyphName of
           Some glyphFileName \<Rightarrow> Some (os_path_join (glyphLayerDir self) glyphFileName)
         | None \<Rightarrow> None)
      else None)"

section \<open>The hash map: readHashMap and checkSkipGlyph\<close>

definition fresh_hash_map :: "(string \<times> hash_entry) list" where
  "fresh_hash_map =
     [(kAdobHashMapVersionName, VersionEntry (fst kAdobHashMapVersion) (snd kAdobHashMapVersion))]"

text \<open>
  \<open>readHashMap\<close>.  A version entry that is not a tuple of numbers makes the comparison
  \<open>version[0] > kAdobHashMapVersion[0]\<close> compare a string with an int, a TypeError.
\<close>

definition readHashMap :: "UFOFontData \<Rightarrow> py_exception + UFOFontData" where
  "readHashMap self =
     (let newMap = (case hashMapFile self of Some data \<Rightarrow> data | None \<Rightarrow> fresh_hash_map) in
      case map_of newMap kAdobHashMapVersionName of
        None \<Rightarrow>
          Inr (self\<lparr>hashMap := fresh_hash_map,
                    logged := logged self @ [LogInfo ''Updating hash map: was older version'']\<rparr>)
      | Some (GlyphEntry h hist) \<Rightarrow> Inl TypeError
      | Some (VersionEntry major minor) \<Rightarrow>
          if major > fst kAdobHashMapVersion then
            Inl (UFOParseError ''Hash map version is newer than program. Please update the FDK'')
          else if major < fst kAdobHashMapVersion then
            Inr (self\<lparr>hashMap := fresh_hash_map,
                      logged := logged self @ [LogInfo ''Updating hash map: was older version'']\<rparr>)
          else Inr (self\<lparr>hashMap := newMap\<rparr>))"

text \<open>
  The first statements of \<open>checkSkipGlyph\<close> once \<open>useHashMap\<close> is known to hold:
  \<open>if len(self.hashMap) == 0: self.readHashMap()\<close>.
\<close>

definition ensure_hash_map_read :: "UFOFontData \<Rightarrow> py_exception + UFOFontData" where
  "ensure_hash_map_read self = (if length (hashMap self) = 0 then readHashMap self else Inr self)"

text \<open>
  \<open>glyphPath = self.getGlyphProcessedPath(glyphName)\<close>, then
  \<open>if glyphPath and os.path.exists(glyphPath): os.remove(glyphPath)\<close>, and
  \<open>self.deletedGlyph = True\<close> where the caller's branch sets it.
\<close>

definition remove_processed_glyph :: "bool \<Rightarrow> string \<Rightarrow> UFOFontData \<Rightarrow> UFOFontData" where
  "remove_processed_glyph setFlag glyphName self =
     (case getGlyphProcessedPath self glyphName of
        None \<Rightarrow> self
      | Some glyphPath \<Rightarrow>
          if glyphPath \<noteq> [] \<and> glyphPath \<in> files self then
            (if setFlag then self\<lparr>files := files self - {glyphPath}, deletedGlyph := True\<rparr>
             else self\<lparr>files := files self - {glyphPath}\<rparr>)
          else self)"

text \<open>The loop \<open>for programName in self.requiredHistory\<close> that sets \<open>foundMatch\<close>.\<close>

fun find_required :: "string list \<Rightarrow> string list \<Rightarrow> bool \<Rightarrow> bool" where
  "find_required [] historyList foundMatch = foundMatch"
| "find_required (programName # rest) historyList foundMatch =
     find_required rest historyList (if programName \<in> set historyList then True else foundMatch)"

text \<open>
  The part of \<open>checkSkipGlyph\<close> after the hash entry has been read: \<open>srcHash\<close> is None
  when the glyph has no entry.
\<close>

definition decide_skip ::
  "UFOFontData \<Rightarrow> string \<Rightarrow> string \<Rightarrow> bool \<Rightarrow> string option \<Rightarrow> string list \<Rightarrow> bool \<times> UFOFontData" where
  "decide_skip self glyphName newSrcHash doAll srcHash historyList =
     (let programHistoryFound = (kAutohintName \<in> set historyList) in
      if srcHash = Some newSrcHash then
        (let skip = (programHistoryFound \<and> \<not> doAll) in
         if \<not> skip then
           (if \<not> useProcessedLayer self then
              (False,
               remove_processed_glyph False glyphName
                 (self\<lparr>hashMapChanged := True,
                       hashMap := AList.update glyphName (GlyphEntry newSrcHash [kAutohintName])
                                    (hashMap self)\<rparr>))
            else if \<not> programHistoryFound then
              (False,
               self\<lparr>hashMap := AList.update glyphName
                                   (GlyphEntry newSrcHash (historyList @ [kAutohintName]))
                                   (hashMap self)\<rparr>)
            else (False, self))
         else (True, self))
      else
        (let foundMatch =
               (useProcessedLayer self \<and> length historyList > 0 \<and>
                find_required (requiredHistory self) historyList False);
             self1 =
               (if foundMatch then
                  self\<lparr>logged := logged self @
                         [LogError glyphName (requiredHistory self) kAutohintName]\<rparr>
                else self)
         in
         (foundMatch,
          remove_processed_glyph True glyphName
            (self1\<lparr>hashMapChanged := True,
                   hashMap := AList.update glyphName (GlyphEntry newSrcHash [kAutohintName])
                                (hashMap self1)\<rparr>))))"

text \<open>
  \<open>checkSkipGlyph\<close>: the skip flag and the font object after the call.  Unpacking the
  version marker as a glyph entry gives \<open>historyList\<close> a number, and
  \<open>historyList.index\<close> is then an AttributeError.
\<close>

definition checkSkipGlyph ::
  "UFOFontData \<Rightarrow> string \<Rightarrow> string \<Rightarrow> bool \<Rightarrow> py_exception + bool \<times> UFOFontData" where
  "checkSkipGlyph self glyphName newSrcHash doAll =
     (if \<not> useHashMap self then Inr (False, self)
      else
        case ensure_hash_map_read self of
          Inl e \<Rightarrow> Inl e
        | Inr self1 \<Rightarrow>
            (case map_of (hashMap self1) glyphName of
               None \<Rightarrow> Inr (decide_skip self1 glyphName newSrcHash doAll None [])
             | Some (VersionEntry major minor) \<Rightarrow> Inl AttributeError
             | Some (GlyphEntry srcHash historyList) \<Rightarrow>
                 Inr (decide_skip self1 glyphName newSrcHash doAll (Some srcHash) historyList)))"

section \<open>Example fonts\<close>

text \<open>
  A font whose hash map has not been read and has no file yet, and the same font with
  a loaded hash map in which glyph \<open>a\<close> was last seen with hash \<open>w500\<close> by
  checkOutlines.  The glyph has a file in the processed layer.
\<close>

definition font_unread :: UFOFontData where
  "font_unread =
     \<lparr>parentPath = ''font.ufo'', glyphMap = [(''a'', ''a.glif'')],
      processedLayerGlyphMap = [(''a'', ''a.glif'')], useHashMap = True, hashMap = [],
      hashMapChanged = False, glyphDefaultDir = ''font.ufo/glyphs'',
      glyphLayerDir = ''font.ufo/processed'', requiredHistory = [''checkOutlines''],
      useProcessedLayer = True, deletedGlyph = False, allowDecimalCoords = False,
      files = {''font.ufo/glyphs/a.glif'', ''font.ufo/processed/a.glif''},
      hashMapFile = None, glifOutline = Map.empty, glifXML = Map.empty, logged = []\<rparr>"

definition font_edited :: UFOFontData where
  "font_edited =
     font_unread\<lparr>hashMap := [(''hashMapVersion'', VersionEntry 1 0),
                             (''a'', GlyphEntry ''w500'' [''checkOutlines''])]\<rparr>"

section \<open>Hint masks\<close>

definition kStackLimit :: int where
  "kStackLimit = 46"

definition kHStemName :: string where "kHStemName = ''hstem''"
definition kVStemName :: string where "kVStemName = ''vstem''"
definition kHStem3Name :: string where "kHStem3Name = ''hstem3''"
definition kVStem3Name :: string where "kVStem3Name = ''vstem3''"
definition kBaseFlexName :: string where "kBaseFlexName = ''flexCurve''"

text \<open>
  \<open>class HintMask\<close>.  A hint is the argument list that stood before its operator, a
  counter group is a list of three such lists; every number in them is a float.
\<close>

record HintMask =
  listPos :: nat
  hList :: "real list list"
  vList :: "real list list"
  hstem3List :: "real list list list"
  vstem3List :: "real list list list"
  pointName :: point_name

definition HintMask_init :: "nat \<Rightarrow> HintMask" where
  "HintMask_init pos =
     \<lparr>listPos = pos, hList = [], vList = [], hstem3List = [], vstem3List = [],
      pointName = IndexedName ''hintSet'' pos\<rparr>"

text \<open>\<open>int(v)\<close> of a float: truncation towards zero.\<close>

definition py_int :: "real \<Rightarrow> int" where
  "py_int v = (if 0 \<le> v then \<lfloor>v\<rfloor> else \<lceil>v\<rceil>)"

text \<open>
  \<open>if isinstance(pos, float) and int(pos) == pos: pos = int(pos)\<close>, for a float.
\<close>

definition int_if_integral :: "real \<Rightarrow> pynum" where
  "int_if_integral v = (if of_int (py_int v) = v then PyInt (py_int v) else PyFloat v)"

text \<open>
  The text of one \<open>string\<close> element of a stems array: the operator name and the
  numbers that \<open>%s\<close> renders after it.
\<close>

datatype stem_text = StemText string "pynum list"

text \<open>
  \<open>makeHintList\<close>: the elements it appends to the array.  An empty hint is passed
  over; a hint with one number fails at \<open>hint[1]\<close>.
\<close>

fun makeHintList :: "real list list \<Rightarrow> bool \<Rightarrow> py_exception + stem_text list" where
  "makeHintList [] isH = Inr []"
| "makeHintList ([] # hints) isH = makeHintList hints isH"
| "makeHintList ([pos] # hints) isH = Inl IndexError"
| "makeHintList ((pos # width # others) # hints) isH =
     (case makeHintList hints isH of
        Inl e \<Rightarrow> Inl e
      | Inr rest \<Rightarrow>
          Inr (StemText (if isH then kHStemName else kVStemName)
                 [int_if_integral pos, int_if_integral width] # rest))"

text \<open>
  \<open>makeStemHintList\<close>: the loop \<open>for pos, width in stem3\<close> over one group (a pair with
  other than two numbers cannot be unpacked, a ValueError), the loop over the groups,
  and the single element appended.
\<close>

fun stem3_pairs :: "real list list \<Rightarrow> py_exception + pynum list" where
  "stem3_pairs [] = Inr []"
| "stem3_pairs ([pos, width] # pairs) =
     (case stem3_pairs pairs of
        Inl e \<Rightarrow> Inl e
      | Inr rest \<Rightarrow> Inr (int_if_integral pos # int_if_integral width # rest))"
| "stem3_pairs (other # pairs) = Inl ValueError"

fun stem3_groups :: "real list list list \<Rightarrow> py_exception + pynum list" where
  "stem3_groups [] = Inr []"
| "stem3_groups (stem3 # groups) =
     (case stem3_pairs stem3 of
        Inl e \<Rightarrow> Inl e
      | Inr first \<Rightarrow>
          (case stem3_groups groups of Inl e \<Rightarrow> Inl e | Inr rest \<Rightarrow> Inr (first @ rest)))"

definition makeStemHintList :: "real list list list \<Rightarrow> bool \<Rightarrow> py_exception + stem_text list" where
  "makeStemHintList hintsStem3 isH =
     (case stem3_groups hintsStem3 of
        Inl e \<Rightarrow> Inl e
      | Inr posList \<Rightarrow> Inr [StemText (if isH then kHStem3Name else kVStem3Name) posList])"

definition hintLimit :: nat where
  "hintLimit = nat ((kStackLimit - 2) div 2)"

text \<open>
  \<open>addHintList\<close>: the elements it appends.  \<open>list.sort()\<close> orders the hints as Python
  orders lists, by the first number that differs (a proper prefix first); that is the
  order of \<open>List_Lexorder\<close>.
\<close>

definition addHintList ::
  "real list list \<Rightarrow> real list list list \<Rightarrow> bool \<Rightarrow> py_exception + stem_text list" where
  "addHintList hints hintsStem3 isH =
     (if length hintsStem3 > 0 then
        (let sorted3 = sort hintsStem3;
             numHints = length sorted3;
             kept = (if numHints \<ge> hintLimit then take hintLimit sorted3 else sorted3)
         in makeStemHintList kept isH)
      else
        (let sortedHints = sort hints;
             numHints = length sortedHints;
             kept = (if numHints \<ge> hintLimit then take hintLimit sortedHints else sortedHints)
         in makeHintList kept isH))"

text \<open>One \<open>dict\<close> of the hint set list: the point tag and the stems array.\<close>

record hint_set =
  pointTag :: point_name
  stems :: "stem_text list"

text \<open>
  \<open>HintMask.addHintSet\<close>: the dict it appends.  Both conditions of the source test
  \<open>self.vstem3List\<close>.
\<close>

definition addHintSet :: "HintMask \<Rightarrow> py_exception + hint_set" where
  "addHintSet self =
     (case (if length (hList self) > 0 \<or> length (vstem3List self) \<noteq> 0
            then addHintList (hList self) (hstem3List self) True else Inr []) of
        Inl e \<Rightarrow> Inl e
      | Inr hStems \<Rightarrow>
          (case (if length (vList self) > 0 \<or> length (vstem3List self) \<noteq> 0
                 then addHintList (vList self) (vstem3List self) False else Inr []) of
             Inl e \<Rightarrow> Inl e
           | Inr vStems \<Rightarrow> Inr \<lparr>pointTag = pointName self, stems = hStems @ vStems\<rparr>))"



text \<open>
  Example masks: one horizontal counter group and nothing else; the same group on the
  vertical axis; the horizontal group beside a plain vertical stem.
\<close>

definition mask_hstem3_only :: HintMask where
  "mask_hstem3_only = (HintMask_init 0)\<lparr>hstem3List := [[[0, 10], [20, 10], [40, 10]]]\<rparr>"

definition mask_vstem3_only :: HintMask where
  "mask_vstem3_only = (HintMask_init 0)\<lparr>vstem3List := [[[0, 10], [20, 10], [40, 10]]]\<rparr>"

definition mask_hstem3_vstem :: HintMask where
  "mask_hstem3_vstem =
     (HintMask_init 0)\<lparr>vList := [[100, 32]], hstem3List := [[[0, 10], [20, 10], [40, 10]]]\<rparr>"


section \<open>The encoder: convertGlyphOutlineToBezString\<close>

text \<open>
  A bez string is modelled by its sequence of whitespace-separated tokens: a number
  (the value its text denotes) or an operator word.  A line of \<open>bezStringList\<close> is a
  token list, and joining lines with newlines is concatenation.
\<close>

datatype bez_token = Num real | Op string

type_synonym bez = "bez_token list"

text \<open>\<open>round(v)\<close> of Python 3: to the nearest integer, a tie to the even one.\<close>

definition py_round :: "real \<Rightarrow> int" where
  "py_round v =
     (let f = \<lfloor>v\<rfloor>; d = v - of_int f in
      if d < 1/2 then f else if 1/2 < d then f + 1 else if even f then f else f + 1)"

text \<open>
  The number that the text of \<open>"%.3f" % v\<close> denotes, and the number in the text of a
  coordinate: \<open>%.3f\<close> when decimals are allowed, \<open>%s\<close> of the rounded int otherwise.
\<close>

definition fmt3 :: "real \<Rightarrow> real" where
  "fmt3 v = of_int (py_round (v * 1000)) / 1000"

definition fmt_coord :: "bool \<Rightarrow> real \<Rightarrow> real" where
  "fmt_coord allowDecimals v = (if allowDecimals then fmt3 v else v)"

text \<open>
  \<open>x = float(item.attrib["x"])\<close>, \<open>y\<close> likewise, the transform if there is one, and
  \<open>int(round(.))\<close> unless decimals are allowed.
\<close>

definition point_coords :: "bool \<Rightarrow> UFOTransform option \<Rightarrow> point \<Rightarrow> real \<times> real" where
  "point_coords allowDecimals transform item =
     (case (case transform of
              None \<Rightarrow> (num_value (px item), num_value (py item))
            | Some t \<Rightarrow> UFOTransform_apply t (num_value (px item)) (num_value (py item))) of
        (x, y) \<Rightarrow>
          if \<not> allowDecimals then (of_int (py_round x), of_int (py_round y)) else (x, y))"

text \<open>\<open>item.attrib["type"]\<close>, with \<open>"offcurve"\<close> when the attribute is absent.\<close>

definition point_type_of :: "point \<Rightarrow> string" where
  "point_type_of item = (case ptype item of None \<Rightarrow> ''offcurve'' | Some t \<Rightarrow> t)"

definition bez_op :: "bool \<Rightarrow> real list \<Rightarrow> string \<Rightarrow> bez" where
  "bez_op allowDecimals args opName = map (\<lambda>v. Num (fmt_coord allowDecimals v)) args @ [Op opName]"

text \<open>
  The loop \<open>for contourItem in outlineItem\<close>: the lines it appends, from the current
  \<open>argStack\<close>.
\<close>

fun convert_points ::
  "bool \<Rightarrow> UFOTransform option \<Rightarrow> point list \<Rightarrow> real list \<Rightarrow> py_exception + bez list" where
  "convert_points allowDecimals transform [] argStack = Inr []"
| "convert_points allowDecimals transform (contourItem # rest) argStack =
     (case point_coords allowDecimals transform contourItem of
        (x, y) \<Rightarrow>
          if point_type_of contourItem = ''offcurve'' then
            convert_points allowDecimals transform rest (argStack @ [x, y])
          else if point_type_of contourItem = ''move'' then
            (case convert_points allowDecimals transform rest [] of
               Inl e \<Rightarrow> Inl e
             | Inr ops \<Rightarrow> Inr (bez_op allowDecimals [x, y] ''mt'' # ops))
          else if point_type_of contourItem = ''line'' then
            (case convert_points allowDecimals transform rest [] of
               Inl e \<Rightarrow> Inl e
             | Inr ops \<Rightarrow> Inr (bez_op allowDecimals [x, y] ''dt'' # ops))
          else if point_type_of contourItem = ''curve'' then
            (if length argStack \<noteq> 4 then
               Inl (UFOParseError ''Argument stack error seen for curve point.'')
             else
               (case convert_points allowDecimals transform rest [] of
                  Inl e \<Rightarrow> Inl e
                | Inr ops \<Rightarrow>
                    Inr (bez_op allowDecimals
                           [argStack ! 0, argStack ! 1, argStack ! 2, argStack ! 3, x, y] ''ct''
                         # ops)))
          else if point_type_of contourItem = ''qccurve'' then
            Inl (UFOParseError ''Point type not supported.'')
          else Inl (UFOParseError ''Unknown Point type not supported.''))"

text \<open>
  The iteration over the points that remain after the move-to has been set up, with the
  lines appended before it and the closing \<open>cp\<close>.
\<close>

definition iterate_contour ::
  "bool \<Rightarrow> UFOTransform option \<Rightarrow> bez list \<Rightarrow> point list \<Rightarrow> py_exception + bez list" where
  "iterate_contour allowDecimals transform opening outlineItem =
     (case convert_points allowDecimals transform outlineItem [] of
        Inl e \<Rightarrow> Inl e
      | Inr ops \<Rightarrow> Inr (opening @ ops @ [[Op ''cp'']]))"

text \<open>
  One \<open>contour\<close> element: the lines it adds to \<open>bezStringList\<close> (none when the
  contour is passed over).
\<close>

definition convert_contour ::
  "bool \<Rightarrow> UFOTransform option \<Rightarrow> point list \<Rightarrow> py_exception + bez list" where
  "convert_contour allowDecimals transform outlineItem =
     (case outlineItem of
        [] \<Rightarrow> Inr []
      | lastItem # rest \<Rightarrow>
          if point_type_of lastItem \<in> set [''curve'', ''line'', ''qccurve''] then
            (case point_coords allowDecimals transform lastItem of
               (x, y) \<Rightarrow>
                 iterate_contour allowDecimals transform [bez_op allowDecimals [x, y] ''mt'']
                   (if point_type_of lastItem \<noteq> ''line'' then rest @ [lastItem] else rest))
          else if point_type_of lastItem = ''move'' then
            (if length outlineItem = 1 then Inr []
             else iterate_contour allowDecimals transform [] outlineItem)
          else if point_type_of lastItem = ''offcurve'' then
            (case ptype (last outlineItem) of
               None \<Rightarrow>
                 Inl (UFOParseError ''Unhandled case for first and last points in outline.'')
             | Some lastType \<Rightarrow>
                 (case point_coords allowDecimals transform (last outlineItem) of
                    (x, y) \<Rightarrow>
                      if lastType = ''line'' then
                        iterate_contour allowDecimals transform
                          [bez_op allowDecimals [x, y] ''mt''] (butlast outlineItem)
                      else if lastType = ''curve'' then
                        iterate_contour allowDecimals transform
                          [bez_op allowDecimals [x, y] ''mt''] outlineItem
                      else iterate_contour allowDecimals transform [] outlineItem))
          else Inl (UFOParseError ''Unhandled case for first point in outline.''))"

text \<open>
  The path of a component's GLIF file.  \<open>getComponentOutline\<close> (with
  \<open>defaultOnly = not self.useProcessedLayer\<close>) and \<open>buildGlyphHashValue\<close> (with
  \<open>defaultOnly = useDefaultGlyphDir\<close>) hold the same statements for it.
\<close>

definition missing_from_contents :: py_exception where
  "missing_from_contents = UFOParseError ''component glyph is missing from contents.plist.''"

definition default_path_or_missing :: "UFOFontData \<Rightarrow> string \<Rightarrow> py_exception + string" where
  "default_path_or_missing self compGlyphName =
     (case getGlyphDefaultPath self compGlyphName of
        Inl (KeyError k) \<Rightarrow> Inl missing_from_contents
      | r \<Rightarrow> r)"

definition component_path :: "UFOFontData \<Rightarrow> bool \<Rightarrow> string \<Rightarrow> py_exception + string" where
  "component_path self defaultOnly compGlyphName =
     (if defaultOnly then default_path_or_missing self compGlyphName
      else
        case getGlyphSrcPath self compGlyphName of
          Inl (KeyError k) \<Rightarrow> default_path_or_missing self compGlyphName
        | Inl e \<Rightarrow> Inl e
        | Inr path \<Rightarrow>
            if path \<notin> files self then default_path_or_missing self compGlyphName
            else Inr path)"

definition getComponentOutline :: "UFOFontData \<Rightarrow> component \<Rightarrow> py_exception + outline option" where
  "getComponentOutline self componentItem =
     (case base componentItem of
        None \<Rightarrow> Inl (UFOParseError ''base attribute missing from component.'')
      | Some compGlyphName \<Rightarrow>
          (case component_path self (\<not> useProcessedLayer self) compGlyphName of
             Inl e \<Rightarrow> Inl e
           | Inr compGlyphFilePath \<Rightarrow>
               if compGlyphFilePath \<notin> files self then
                 Inl (UFOParseError ''component file is missing.'')
               else
                 (case glifOutline self compGlyphFilePath of
                    None \<Rightarrow> Inl ParseError
                  | Some outlineXML \<Rightarrow> Inr outlineXML)))"

text \<open>
  The transform handed to a component's outline: the component's own transform
  concatenated with the inherited one, or None when both are trivial.
\<close>

definition component_transform :: "UFOTransform \<Rightarrow> UFOTransform option \<Rightarrow> UFOTransform option" where
  "component_transform newTransform transform =
     (if isDefault newTransform then
        (if transform \<noteq> None then Some (UFOTransform_concat newTransform transform) else None)
      else
        (if transform \<noteq> None then Some (UFOTransform_concat newTransform transform)
         else Some newTransform))"

text \<open>\<open>if componentOutline:\<close> holds for an element that has children.\<close>

definition element_truth :: "'a list option \<Rightarrow> bool" where
  "element_truth e = (case e of None \<Rightarrow> False | Some items \<Rightarrow> items \<noteq> [])"

definition too_many_levels :: py_exception where
  "too_many_levels = UFOParseError ''In parsing component, exceeded 10 levels of reference.''"

text \<open>
  \<open>convertGlyphOutlineToBezString\<close>, and its loop over the items of the outline
  (\<open>convert_items\<close>: the elements appended to \<open>bezStringList\<close>).
\<close>

function convertGlyphOutlineToBezString ::
    "UFOFontData \<Rightarrow> outline option \<Rightarrow> UFOTransform option \<Rightarrow> nat \<Rightarrow> py_exception + bez"
  and convert_items ::
    "UFOFontData \<Rightarrow> outline_item list \<Rightarrow> UFOTransform option \<Rightarrow> nat \<Rightarrow> py_exception + bez list"
where
  "convertGlyphOutlineToBezString ufoFontData outlineXML transform level =
     (if level > 10 then Inl too_many_levels
      else
        case outlineXML of
          None \<Rightarrow> Inr []
        | Some items \<Rightarrow>
            (case convert_items ufoFontData items transform level of
               Inl e \<Rightarrow> Inl e
             | Inr bezStringList \<Rightarrow> Inr (concat bezStringList)))"
| "convert_items ufoFontData [] transform level = Inr []"
| "convert_items ufoFontData (Component c # rest) transform level =
     (case UFOTransform_init c of
        Inl e \<Rightarrow> Inl e
      | Inr newTransform \<Rightarrow>
          (case getComponentOutline ufoFontData c of
             Inl e \<Rightarrow> Inl e
           | Inr componentOutline \<Rightarrow>
               (case (if element_truth componentOutline then
                        (case convertGlyphOutlineToBezString ufoFontData componentOutline
                                (component_transform newTransform transform) (level + 1) of
                           Inl e \<Rightarrow> Inl e
                         | Inr outlineBezString \<Rightarrow> Inr [outlineBezString])
                      else Inr []) of
                  Inl e \<Rightarrow> Inl e
                | Inr sub \<Rightarrow>
                    (case convert_items ufoFontData rest transform level of
                       Inl e \<Rightarrow> Inl e
                     | Inr others \<Rightarrow> Inr (sub @ others)))))"
| "convert_items ufoFontData (Contour pts # rest) transform level =
     (case convert_contour (allowDecimalCoords ufoFontData) transform pts of
        Inl e \<Rightarrow> Inl e
      | Inr ops \<Rightarrow>
          (case convert_items ufoFontData rest transform level of
             Inl e \<Rightarrow> Inl e
           | Inr others \<Rightarrow> Inr (ops @ others)))"
| "convert_items ufoFontData (OtherElement # rest) transform level =
     convert_items ufoFontData rest transform level"
  by pat_completeness auto
termination
  by (relation "measures
        [\<lambda>s. case s of
                Inl (f, ox, t, l) \<Rightarrow> if l > 10 then 0 else 2 * (11 - l) + 2
              | Inr (f, items, t, l) \<Rightarrow> 2 * (11 - l) + 1,
         \<lambda>s. case s of Inl (f, ox, t, l) \<Rightarrow> 0 | Inr (f, items, t, l) \<Rightarrow> length items]")
     auto

section \<open>Example contours\<close>

text \<open>A point with integer coordinates and no name.\<close>

definition pt :: "string option \<Rightarrow> int \<Rightarrow> int \<Rightarrow> point" where
  "pt kind x y = \<lparr>px = PyInt x, py = PyInt y, ptype = kind, pname = None\<rparr>"

text \<open>
  The opening the specification words for a first point of kind line or curve: a
  move-to at the first point, then the iteration over the list rotated so that the
  first point is last.
\<close>

definition spec_rotate_first ::
  "bool \<Rightarrow> UFOTransform option \<Rightarrow> point list \<Rightarrow> py_exception + bez list" where
  "spec_rotate_first allowDecimals transform outlineItem =
     (case point_coords allowDecimals transform (hd outlineItem) of
        (x, y) \<Rightarrow>
          iterate_contour allowDecimals transform [bez_op allowDecimals [x, y] ''mt'']
            (tl outlineItem @ [hd outlineItem]))"

text \<open>Two line points; three points that all carry \<open>type="offcurve"\<close>.\<close>

definition contour_two_lines :: "point list" where
  "contour_two_lines = [pt (Some ''line'') 0 0, pt (Some ''line'') 10 0]"

definition contour_all_offcurve :: "point list" where
  "contour_all_offcurve =
     [pt (Some ''offcurve'') 0 0, pt (Some ''offcurve'') 10 0, pt (Some ''offcurve'') 5 8]"

text \<open>A curve as first point, followed by a line and the two control points.\<close>

definition contour_curve_first :: "point list" where
  "contour_curve_first =
     [pt (Some ''curve'') 0 0, pt (Some ''line'') 10 0, pt None 10 5, pt None 5 10]"

section \<open>The hash builder: buildGlyphHashValue\<close>

text \<open>
  The library functions the hash builder calls, taken as parameters: \<open>int(string)\<close>
  (None where it raises ValueError), \<open>str\<close> of an int, and
  \<open>hashlib.sha512(data.encode("utf-8")).hexdigest()\<close>.
\<close>

record py_builtins =
  int_of_text :: "string \<Rightarrow> int option"
  str_of_int :: "int \<Rightarrow> string"
  sha512_hexdigest :: "string \<Rightarrow> string"

text \<open>
  The loop over the children of a contour with at least two children: one token for
  every \<open>point\<close> child.  \<open>child.attrib["type"][0]\<close> is the empty string when the
  attribute is absent (KeyError) and an IndexError when the attribute is empty.
\<close>

fun hash_points :: "xml list \<Rightarrow> py_exception + string list" where
  "hash_points [] = Inr []"
| "hash_points (child # rest) =
     (if tag child = ''point'' then
        (case (case map_of (attrib child) ''type'' of
                 None \<Rightarrow> Inr []
               | Some [] \<Rightarrow> Inl IndexError
               | Some (c # cs) \<Rightarrow> Inr [c]) of
           Inl e \<Rightarrow> Inl e
         | Inr pointType \<Rightarrow>
             (case dict_getitem (map_of (attrib child)) id ''x'' of
                Inl e \<Rightarrow> Inl e
              | Inr xText \<Rightarrow>
                  (case dict_getitem (map_of (attrib child)) id ''y'' of
                     Inl e \<Rightarrow> Inl e
                   | Inr yText \<Rightarrow>
                       (case hash_points rest of
                          Inl e \<Rightarrow> Inl e
                        | Inr others \<Rightarrow> Inr ((pointType @ xText @ yText) # others)))))
      else hash_points rest)"

text \<open>
  The loop over the transform tags of a component: the text of every attribute that is
  present, an integer in the text that \<open>str(int(value))\<close> gives.
\<close>

fun hash_transform_tags :: "py_builtins \<Rightarrow> xml \<Rightarrow> string list \<Rightarrow> string list" where
  "hash_transform_tags b componentXML [] = []"
| "hash_transform_tags b componentXML (transformTag # tags) =
     (case map_of (attrib componentXML) transformTag of
        None \<Rightarrow> hash_transform_tags b componentXML tags
      | Some val \<Rightarrow>
          (case int_of_text b val of
             Some i \<Rightarrow> str_of_int b i
           | None \<Rightarrow> val) # hash_transform_tags b componentXML tags)"

text \<open>
  \<open>buildGlyphHashValue\<close> and its loop over the children of the outline
  (\<open>hash_children\<close>: the tokens added to \<open>dataList\<close>).  The message of the error for a
  component without \<open>base\<close> has two places and one argument, so building it is a
  TypeError.
\<close>

function buildGlyphHashValue ::
    "py_builtins \<Rightarrow> UFOFontData \<Rightarrow> int \<Rightarrow> xml option \<Rightarrow> string \<Rightarrow> bool \<Rightarrow> nat
       \<Rightarrow> py_exception + string \<times> string list"
  and hash_children ::
    "py_builtins \<Rightarrow> UFOFontData \<Rightarrow> int \<Rightarrow> xml list \<Rightarrow> string \<Rightarrow> bool \<Rightarrow> nat
       \<Rightarrow> py_exception + string list"
where
  "buildGlyphHashValue b self width outlineXML glyphName useDefaultGlyphDir level =
     (if level > 10 then Inl too_many_levels
      else
        case (case outlineXML of
                None \<Rightarrow> Inr []
              | Some e \<Rightarrow>
                  if children e \<noteq> [] then
                    hash_children b self width (children e) glyphName useDefaultGlyphDir level
                  else Inr []) of
          Inl e \<Rightarrow> Inl e
        | Inr tokens \<Rightarrow>
            Inr (if length (concat ((''w'' @ str_of_int b width) # tokens)) < 128
                 then concat ((''w'' @ str_of_int b width) # tokens)
                 else sha512_hexdigest b (concat ((''w'' @ str_of_int b width) # tokens)),
                 (''w'' @ str_of_int b width) # tokens))"
| "hash_children b self width [] glyphName useDefaultGlyphDir level = Inr []"
| "hash_children b self width (childContour # rest) glyphName useDefaultGlyphDir level =
     (if tag childContour = ''contour'' then
        (case (if length (children childContour) < 2 then Inr []
               else hash_points (children childContour)) of
           Inl e \<Rightarrow> Inl e
         | Inr tokens \<Rightarrow>
             (case hash_children b self width rest glyphName useDefaultGlyphDir level of
                Inl e \<Rightarrow> Inl e
              | Inr others \<Rightarrow> Inr (tokens @ others)))
      else if tag childContour = ''component'' then
        (case map_of (attrib childContour) ''base'' of
           None \<Rightarrow> Inl TypeError
         | Some compGlyphName \<Rightarrow>
             (case component_path self useDefaultGlyphDir compGlyphName of
                Inl e \<Rightarrow> Inl e
              | Inr componentPath \<Rightarrow>
                  if componentPath \<notin> files self then
                    Inl (UFOParseError ''component file is missing.'')
                  else
                    (case glifXML self componentPath of
                       None \<Rightarrow> Inl ParseError
                     | Some componentOutlineXML \<Rightarrow>
                         (case buildGlyphHashValue b self width componentOutlineXML glyphName
                                 useDefaultGlyphDir (level + 1) of
                            Inl e \<Rightarrow> Inl e
                          | Inr r \<Rightarrow>
                              (case hash_children b self width rest glyphName
                                      useDefaultGlyphDir level of
                                 Inl e \<Rightarrow> Inl e
                               | Inr others \<Rightarrow>
                                   Inr (((''base:'' @ compGlyphName)
                                         # hash_transform_tags b childContour kTransformTagList
                                         @ snd r) @ others))))))
      else hash_children b self width rest glyphName useDefaultGlyphDir level)"
  by pat_completeness auto
termination
  by (relation "measures
        [\<lambda>s. case s of
                Inl (b, f, w, ox, g, u, l) \<Rightarrow> if l > 10 then 0 else 2 * (11 - l) + 2
              | Inr (b, f, w, items, g, u, l) \<Rightarrow> 2 * (11 - l) + 1,
         \<lambda>s. case s of
                Inl (b, f, w, ox, g, u, l) \<Rightarrow> 0
              | Inr (b, f, w, items, g, u, l) \<Rightarrow> length items]")
     auto

section \<open>Example fonts with nested components\<close>

text \<open>
  A font of the glyphs 0 to \<open>depth\<close>: glyph \<open>n\<close> below \<open>depth\<close> is a single
  component that refers to glyph \<open>n + 1\<close>, glyph \<open>depth\<close> is a contour of two lines.
  The name of glyph \<open>n\<close> is \<open>n + 1\<close> letters g.
\<close>

definition chain_name :: "nat \<Rightarrow> string" where
  "chain_name n = replicate (Suc n) (CHR ''g'')"

definition chain_path :: "nat \<Rightarrow> string" where
  "chain_path n = ''glyphs/'' @ chain_name n @ ''.glif''"

definition chain_outline :: "nat \<Rightarrow> nat \<Rightarrow> outline" where
  "chain_outline depth n =
     (if n < depth then
        [Component \<lparr>base = Some (chain_name (Suc n)), xScale = None, xyScale = None,
                    yxScale = None, yScale = None, xOffset = None, yOffset = None\<rparr>]
      else [Contour contour_two_lines])"

definition chain_xml :: "nat \<Rightarrow> nat \<Rightarrow> xml" where
  "chain_xml depth n =
     Element ''outline'' []
       (if n < depth then [Element ''component'' [(''base'', chain_name (Suc n))] []]
        else [Element ''contour'' []
                [Element ''point'' [(''x'', ''0''), (''y'', ''0''), (''type'', ''line'')] [],
                 Element ''point'' [(''x'', ''10''), (''y'', ''0''), (''type'', ''line'')] []]])"

definition chain_font :: "nat \<Rightarrow> UFOFontData" where
  "chain_font depth =
     \<lparr>parentPath = ''f.ufo'',
      glyphMap = map (\<lambda>n. (chain_name n, chain_name n @ ''.glif'')) [0..<Suc depth],
      processedLayerGlyphMap = [], useHashMap = False, hashMap = [], hashMapChanged = False,
      glyphDefaultDir = ''glyphs'', glyphLayerDir = ''processed'', requiredHistory = [],
      useProcessedLayer = False, deletedGlyph = False, allowDecimalCoords = False,
      files = set (map chain_path [0..<Suc depth]), hashMapFile = None,
      glifOutline = map_of (map (\<lambda>n. (chain_path n, Some (chain_outline depth n))) [0..<Suc depth]),
      glifXML = map_of (map (\<lambda>n. (chain_path n, Some (chain_xml depth n))) [0..<Suc depth]),
      logged = []\<rparr>"

text \<open>Stand-ins for the library functions, for running the hash builder on the examples.\<close>

definition example_builtins :: py_builtins where
  "example_builtins =
     \<lparr>int_of_text = (\<lambda>t. None), str_of_int = (\<lambda>i. ''500''), sha512_hexdigest = (\<lambda>d. ''digest'')\<rparr>"

section \<open>The decoder: convertBezToOutline\<close>

definition convertCoords :: "real \<Rightarrow> real \<Rightarrow> pynum \<times> pynum" where
  "convertCoords x y =
     (if of_int (py_int x) \<noteq> x then PyFloat x else PyInt (py_int x),
      if of_int (py_int y) \<noteq> y then PyFloat y else PyInt (py_int y))"

text \<open>\<open>XMLElement("point", {"x": .., "y": .., "type": ..})\<close> of converted coordinates.\<close>

definition new_point :: "real \<Rightarrow> real \<Rightarrow> string option \<Rightarrow> point" where
  "new_point x y kind =
     (case convertCoords x y of
        (showX, showY) \<Rightarrow> \<lparr>px = showX, py = showY, ptype = kind, pname = None\<rparr>)"

text \<open>\<open>outlineItem[-n].set("name", name)\<close>, for a contour of at least \<open>n\<close> points.\<close>

definition set_name_from_end :: "nat \<Rightarrow> point_name \<Rightarrow> point list \<Rightarrow> point list" where
  "set_name_from_end n name outlineItem =
     outlineItem[length outlineItem - n :=
                   (outlineItem ! (length outlineItem - n))\<lparr>pname := Some name\<rparr>]"

text \<open>
  \<open>fixStartPoint\<close>: the contour after the call.  An entry of \<open>opList\<close> is
  \<open>[opName, x, y]\<close>.
\<close>

definition fixStartPoint ::
  "point list \<Rightarrow> (string \<times> real \<times> real) list \<Rightarrow> py_exception + point list" where
  "fixStartPoint outlineItem ops =
     (case ops of
        [] \<Rightarrow> Inl IndexError
      | firstOp # laterOps \<Rightarrow>
          (case outlineItem of
             [] \<Rightarrow> Inl IndexError
           | firstPointElement # others \<Rightarrow>
               if fst (snd firstOp) = fst (snd (last ops)) \<and> snd (snd firstOp) = snd (snd (last ops))
               then
                 (if others = [] then Inr []
                  else Inr (firstPointElement\<lparr>ptype := Some (fst (last ops))\<rparr> # butlast others))
               else Inr (firstPointElement\<lparr>ptype := Some ''line''\<rparr> # others)))"

text \<open>
  The local variables of \<open>convertBezToOutline\<close>.  \<open>hintMask\<close> is always the last
  element of \<open>hintMaskList\<close>, and \<open>outlineItem\<close>, when it is not None, the last child
  of \<open>newOutline\<close>: the state holds the list without its last element
  (\<open>earlierHintMasks\<close>, \<open>closedContours\<close>) beside the element itself.
\<close>

record bez_state =
  flexList :: "point_name list"
  earlierHintMasks :: "HintMask list"
  hintMask :: HintMask
  vStem3Args :: "real list list"
  hStem3Args :: "real list list"
  argList :: "real list"
  opList :: "(string \<times> real \<times> real) list"
  newHintMaskName :: "point_name option"
  inPreFlex :: bool
  opIndex :: nat
  curX :: real
  curY :: real
  closedContours :: "point list list"
  outlineItem :: "point list option"
  seenHints :: bool

definition initial_bez_state :: bez_state where
  "initial_bez_state =
     \<lparr>flexList = [], earlierHintMasks = [], hintMask = HintMask_init 0, vStem3Args = [],
      hStem3Args = [], argList = [], opList = [], newHintMaskName = None, inPreFlex = False,
      opIndex = 0, curX = 0, curY = 0, closedContours = [], outlineItem = None,
      seenHints = False\<rparr>"

text \<open>
  A move-to closes the contour before it: a contour of the move-to alone is deleted,
  any other gets its start point fixed.  The new contour is empty until the point is
  appended.
\<close>

definition open_contour :: "bez_state \<Rightarrow> py_exception + bez_state" where
  "open_contour s =
     (case outlineItem s of
        None \<Rightarrow> Inr (s\<lparr>opList := [], outlineItem := Some []\<rparr>)
      | Some previous \<Rightarrow>
          if length previous = 1 then Inr (s\<lparr>opList := [], outlineItem := Some []\<rparr>)
          else
            (case fixStartPoint previous (opList s) of
               Inl e \<Rightarrow> Inl e
             | Inr fixed \<Rightarrow>
                 Inr (s\<lparr>closedContours := closedContours s @ [fixed], opList := [],
                        outlineItem := Some []\<rparr>)))"

text \<open>The operators \<open>rmt\<close>, \<open>mt\<close> and \<open>dt\<close>, after \<open>opIndex += 1\<close>.\<close>

definition move_or_line :: "bez_state \<Rightarrow> string \<Rightarrow> py_exception + bez_state" where
  "move_or_line s token =
     (let opName = (if token = ''dt'' then ''line'' else ''move'') in
      if length (argList s) < 2 then Inl IndexError
      else
        let x = (if token \<in> set [''mt'', ''dt''] then argList s ! 0 else curX s + argList s ! 0);
            y = (if token \<in> set [''mt'', ''dt''] then argList s ! 1 else curY s + argList s ! 1);
            newPoint = new_point x y (Some opName)
        in
        case (if opName = ''move'' then open_contour s else Inr s) of
          Inl e \<Rightarrow> Inl e
        | Inr s1 \<Rightarrow>
            (case outlineItem s1 of
               None \<Rightarrow> Inl AttributeError
             | Some contour \<Rightarrow>
                 Inr (s1\<lparr>curX := x, curY := y,
                         outlineItem := Some (contour @ [newPoint\<lparr>pname := newHintMaskName s1\<rparr>]),
                         newHintMaskName := None,
                         opList := opList s1 @ [(opName, x, y)],
                         argList := []\<rparr>)))"

text \<open>The operator \<open>ct\<close>, after \<open>opIndex += 1\<close>.\<close>

definition curve_to :: "bez_state \<Rightarrow> py_exception + bez_state" where
  "curve_to s =
     (if length (argList s) < 2 then Inl IndexError
      else
        case outlineItem s of
          None \<Rightarrow> Inl AttributeError
        | Some contour \<Rightarrow>
            if length (argList s) < 6 then Inl IndexError
            else
              let args = argList s;
                  contour1 = contour @ [new_point (args ! 0) (args ! 1) None,
                                        new_point (args ! 2) (args ! 3) None,
                                        new_point (args ! 4) (args ! 5) (Some ''curve'')]
              in
              Inr (s\<lparr>curX := args ! 4, curY := args ! 5,
                     outlineItem :=
                       Some (case newHintMaskName s of
                               None \<Rightarrow> contour1
                             | Some name \<Rightarrow> set_name_from_end 3 name contour1),
                     newHintMaskName := None,
                     opList := opList s @ [(''curve'', args ! 4, args ! 5)],
                     argList := []\<rparr>))"

text \<open>
  The operator \<open>flxa\<close>: two curves from twelve arguments, the flex name on the first
  of the six points, and the pending hint mask renamed to the flex name.
\<close>

definition flex_apply :: "bez_state \<Rightarrow> py_exception + bez_state" where
  "flex_apply s =
     (let flexPointName = IndexedName kBaseFlexName (opIndex s); args = argList s in
      if length args < 2 then Inl IndexError
      else
        case outlineItem s of
          None \<Rightarrow> Inl AttributeError
        | Some contour \<Rightarrow>
            if length args < 12 then Inl IndexError
            else
              Inr (s\<lparr>inPreFlex := False,
                     flexList := flexList s @ [flexPointName],
                     curX := args ! 10, curY := args ! 11,
                     outlineItem :=
                       Some (set_name_from_end 6 flexPointName
                               (contour @ [new_point (args ! 0) (args ! 1) None,
                                           new_point (args ! 2) (args ! 3) None,
                                           new_point (args ! 4) (args ! 5) (Some ''curve''),
                                           new_point (args ! 6) (args ! 7) None,
                                           new_point (args ! 8) (args ! 9) None,
                                           new_point (args ! 10) (args ! 11) (Some ''curve'')])),
                     opList := opList s @ [(''curve'', args ! 4, args ! 5),
                                           (''curve'', args ! 10, args ! 11)],
                     opIndex := opIndex s + 2,
                     hintMask := (case newHintMaskName s of
                                    None \<Rightarrow> hintMask s
                                  | Some name \<Rightarrow> (hintMask s)\<lparr>pointName := flexPointName\<rparr>),
                     newHintMaskName := None,
                     argList := []\<rparr>))"

text \<open>\<open>if newHintMaskName is None: newHintMaskName = hintMask.pointName\<close>.\<close>

definition pending_mask_name :: "bez_state \<Rightarrow> point_name option" where
  "pending_mask_name s =
     (case newHintMaskName s of None \<Rightarrow> Some (pointName (hintMask s)) | Some name \<Rightarrow> Some name)"

text \<open>One token that is not a number: the branches of the loop body in their order.\<close>

definition bez_operator :: "bez_state \<Rightarrow> string \<Rightarrow> py_exception + bez_state" where
  "bez_operator s token =
     (if token = ''newcolors'' then Inr s
      else if token \<in> set [''beginsubr'', ''endsubr''] then Inr s
      else if token \<in> set [''snc''] then
        Inr (s\<lparr>earlierHintMasks :=
                 (if opIndex s = 0 then [] else earlierHintMasks s @ [hintMask s]),
               hintMask := HintMask_init (opIndex s),
               newHintMaskName := Some (pointName (HintMask_init (opIndex s)))\<rparr>)
      else if token \<in> set [''enc''] then Inr s
      else if token = ''div'' then
        (if length (argList s) < 2 then Inl IndexError
         else if last (argList s) = 0 then Inl ZeroDivisionError
         else Inr (s\<lparr>argList := butlast (butlast (argList s)) @
                                  [last (butlast (argList s)) / last (argList s)]\<rparr>))
      else if token = ''rb'' then
        Inr (s\<lparr>newHintMaskName := pending_mask_name s,
               hintMask := (hintMask s)\<lparr>hList := hList (hintMask s) @ [argList s]\<rparr>,
               argList := [], seenHints := True\<rparr>)
      else if token = ''ry'' then
        Inr (s\<lparr>newHintMaskName := pending_mask_name s,
               hintMask := (hintMask s)\<lparr>vList := vList (hintMask s) @ [argList s]\<rparr>,
               argList := [], seenHints := True\<rparr>)
      else if token = ''rm'' then
        (if length (vStem3Args s @ [argList s]) = 3 then
           Inr (s\<lparr>newHintMaskName := pending_mask_name s, seenHints := True, argList := [],
                  hintMask := (hintMask s)\<lparr>vstem3List := vstem3List (hintMask s) @
                                                           [vStem3Args s @ [argList s]]\<rparr>,
                  vStem3Args := []\<rparr>)
         else
           Inr (s\<lparr>newHintMaskName := pending_mask_name s, seenHints := True, argList := [],
                  vStem3Args := vStem3Args s @ [argList s]\<rparr>))
      else if token = ''rv'' then
        (if length (hStem3Args s @ [argList s]) = 3 then
           Inr (s\<lparr>seenHints := True, argList := [],
                  hintMask := (hintMask s)\<lparr>hstem3List := hstem3List (hintMask s) @
                                                           [hStem3Args s @ [argList s]]\<rparr>,
                  hStem3Args := []\<rparr>)
         else
           Inr (s\<lparr>seenHints := True, argList := [],
                  hStem3Args := hStem3Args s @ [argList s]\<rparr>))
      else if token = ''preflx1'' then Inr (s\<lparr>argList := [], inPreFlex := True\<rparr>)
      else if token = ''preflx2a'' then Inr (s\<lparr>argList := []\<rparr>)
      else if token = ''flxa'' then flex_apply s
      else if token = ''sc'' then Inr s
      else if token = ''cp'' then Inr s
      else if token = ''ed'' then Inr s
      else if inPreFlex s \<and> token \<in> set [''rmt'', ''mt''] then Inr s
      else if token \<in> set [''rmt'', ''mt'', ''dt'', ''ct''] then
        (if token \<in> set [''rmt'', ''mt'', ''dt'']
         then move_or_line (s\<lparr>opIndex := opIndex s + 1\<rparr>) token
         else curve_to (s\<lparr>opIndex := opIndex s + 1\<rparr>))
      else Inl (BezParseError ''Unhandled operation.''))"

text \<open>The loop \<open>for token in bezList\<close>: a token that \<open>float()\<close> reads is an argument.\<close>

fun bez_loop :: "bez_state \<Rightarrow> bez \<Rightarrow> py_exception + bez_state" where
  "bez_loop s [] = Inr s"
| "bez_loop s (Num val # tokens) = bez_loop (s\<lparr>argList := argList s @ [val]\<rparr>) tokens"
| "bez_loop s (Op token # tokens) =
     (case bez_operator s token of
        Inl e \<Rightarrow> Inl e
      | Inr s1 \<Rightarrow> bez_loop s1 tokens)"

text \<open>The hint dict: the hint sets of all masks, and the flex list when there is one.\<close>

record hint_info =
  hintSets :: "hint_set list"
  flexNames :: "point_name list option"

fun add_hint_sets :: "HintMask list \<Rightarrow> py_exception + hint_set list" where
  "add_hint_sets [] = Inr []"
| "add_hint_sets (m # masks) =
     (case addHintSet m of
        Inl e \<Rightarrow> Inl e
      | Inr hs \<Rightarrow>
          (case add_hint_sets masks of Inl e \<Rightarrow> Inl e | Inr others \<Rightarrow> Inr (hs # others)))"

text \<open>
  What \<open>convertBezToOutline\<close> returns: \<open>("", None, None)\<close> for a string without
  tokens, otherwise the new outline (its contours) and the hint dict or None.
\<close>

datatype decoded = EmptyBez | Decoded "point list list" "hint_info option"

text \<open>The statements after the loop.\<close>

definition finish_outline :: "bez_state \<Rightarrow> py_exception + decoded" where
  "finish_outline s =
     (case (case outlineItem s of
              None \<Rightarrow> Inr (closedContours s)
            | Some contour \<Rightarrow>
                if length contour = 1 then Inr (closedContours s)
                else
                  (case fixStartPoint contour (opList s) of
                     Inl e \<Rightarrow> Inl e
                   | Inr fixed \<Rightarrow> Inr (closedContours s @ [fixed]))) of
        Inl e \<Rightarrow> Inl e
      | Inr newOutline \<Rightarrow>
          if seenHints s \<or> length (flexList s) > 0 then
            (case add_hint_sets (earlierHintMasks s @ [hintMask s]) of
               Inl e \<Rightarrow> Inl e
             | Inr sets \<Rightarrow>
                 Inr (Decoded newOutline
                        (Some \<lparr>hintSets = sets,
                               flexNames = (if length (flexList s) > 0 then Some (flexList s)
                                            else None)\<rparr>)))
          else Inr (Decoded newOutline None))"

text \<open>
  \<open>convertBezToOutline\<close>, on the tokens of the string after the comments have been
  removed.  The font object and the glyph name are not used by the function.
\<close>

definition convertBezToOutline :: "bez \<Rightarrow> py_exception + decoded" where
  "convertBezToOutline bezList =
     (if bezList = [] then Inr EmptyBez
      else
        case bez_loop initial_bez_state bezList of
          Inl e \<Rightarrow> Inl e
        | Inr s \<Rightarrow> finish_outline s)"

section \<open>The round trip\<close>

text \<open>The on-curve points of a contour, in order: kind and coordinates.\<close>

definition on_curve :: "point list \<Rightarrow> (string \<times> real \<times> real) list" where
  "on_curve pts =
     map (\<lambda>p. (point_type_of p, num_value (px p), num_value (py p)))
       (filter (\<lambda>p. point_type_of p \<noteq> ''offcurve'') pts)"












section \<open>Properties\<close>

text \<open>
  C10: for a glyph name that the glyph-order map does not hold, getGlyphID raises the
  plain KeyError of the dict lookup; the handler for IndexError is never entered, so
  no call of getGlyphID ends in the UFOParseError it would raise.
\<close>

theorem getGlyphID_missing_is_KeyError:
  "getGlyphID orderMap glyphName \<noteq> Inl (UFOParseError msg) \<and>
   (orderMap glyphName = None \<longrightarrow> getGlyphID orderMap glyphName = Inl (KeyError glyphName))"
  by (simp add: getGlyphID_def dict_getitem_def split: option.split)

theorem getGlyphID_missing_is_KeyError_witness:
  "getGlyphID (Map.empty(''a'' \<mapsto> 0)) ''b'' = Inl (KeyError ''b'') \<and>
   getGlyphID (Map.empty(''a'' \<mapsto> 0)) ''b'' \<noteq> Inl (UFOParseError ''x'')"
  using getGlyphID_missing_is_KeyError [of "Map.empty(''a'' \<mapsto> 0)" "''b''" "''x''"]
  by simp

subsection \<open>UFOTransform\<close>

lemma UFOTransform_init_closed_form:
  "UFOTransform_init c =
     Inr \<lparr>transformFactors =
            [case xScale c of None \<Rightarrow> 1 | Some v \<Rightarrow> v,
             case xyScale c of None \<Rightarrow> 0 | Some v \<Rightarrow> v,
             case yxScale c of None \<Rightarrow> 0 | Some v \<Rightarrow> v,
             case yScale c of None \<Rightarrow> 1 | Some v \<Rightarrow> v,
             case xOffset c of None \<Rightarrow> 0 | Some v \<Rightarrow> v,
             case yOffset c of None \<Rightarrow> 0 | Some v \<Rightarrow> v],
          isDefault =
            (xScale c \<in> {None, Some 1} \<and> yScale c \<in> {None, Some 1} \<and>
             xyScale c \<in> {None, Some 0} \<and> yxScale c \<in> {None, Some 0} \<and>
             xOffset c \<in> {None, Some 0} \<and> yOffset c \<in> {None, Some 0}),
          isOffsetOnly =
            (xScale c \<in> {None, Some 1} \<and> yScale c \<in> {None, Some 1} \<and>
             xyScale c \<in> {None, Some 0} \<and> yxScale c \<in> {None, Some 0})\<rparr>"
  unfolding UFOTransform_init_def kTransformTagList_def
  by (cases "xScale c"; cases "xyScale c"; cases "yxScale c"; cases "yScale c";
      cases "xOffset c"; cases "yOffset c")
     (simp_all add: transform_attrib_def)

lemma init_offset_only_iff:
  assumes "UFOTransform_init c = Inr t"
  shows "isOffsetOnly t = linear_is_identity t"
proof -
  from assms have t: "t = projr (UFOTransform_init c)" by simp
  show ?thesis
    unfolding t UFOTransform_init_closed_form linear_is_identity_def
    by (auto split: option.splits)
qed

lemma concat_keeps_offset_only:
  assumes "isOffsetOnly s \<longrightarrow> linear_is_identity s"
  shows "isOffsetOnly (UFOTransform_concat s tr) \<longrightarrow> linear_is_identity (UFOTransform_concat s tr)"
proof (cases tr)
  case None
  with assms show ?thesis by (simp add: UFOTransform_concat_def)
next
  case (Some t)
  show ?thesis
  proof (cases "isDefault t")
    case True
    with Some assms show ?thesis by (simp add: UFOTransform_concat_def)
  next
    case False
    with Some assms show ?thesis
      by (cases "isOffsetOnly t")
         (simp_all add: UFOTransform_concat_def Let_def linear_is_identity_def)
  qed
qed

lemma reachable_offset_only:
  "reachable t \<Longrightarrow> isOffsetOnly t \<longrightarrow> linear_is_identity t"
proof (induction rule: reachable.induct)
  case (reach_init c t)
  then show ?case by (simp add: init_offset_only_iff)
next
  case (reach_concat_None s)
  from reach_concat_None.IH show ?case by (rule concat_keeps_offset_only)
next
  case (reach_concat s t)
  from reach_concat.IH(1) show ?case by (rule concat_keeps_offset_only)
qed

text \<open>
  C9 (as amended): a transform built from a component element has \<open>isOffsetOnly\<close> exactly
  when its linear part is the identity, and for every transform reachable from such
  transforms by \<open>concat\<close>, \<open>isOffsetOnly\<close> implies that the linear part is the identity.
\<close>

theorem isOffsetOnly_implies_identity:
  "(UFOTransform_init c = Inr t0 \<longrightarrow> isOffsetOnly t0 = linear_is_identity t0) \<and>
   (reachable t \<longrightarrow> isOffsetOnly t \<longrightarrow> linear_is_identity t)"
  using init_offset_only_iff [of c t0] reachable_offset_only [of t] by blast

theorem isOffsetOnly_implies_identity_witness:
  "UFOTransform_init comp_shift = Inr t_shift \<and>
   isOffsetOnly t_shift = linear_is_identity t_shift \<and>
   reachable (UFOTransform_concat t_shift (Some t_shift)) \<and>
   isOffsetOnly (UFOTransform_concat t_shift (Some t_shift)) \<and>
   linear_is_identity (UFOTransform_concat t_shift (Some t_shift))"
proof -
  have i: "UFOTransform_init comp_shift = Inr t_shift"
    by (simp add: UFOTransform_init_closed_form comp_shift_def t_shift_def)
  have r: "reachable (UFOTransform_concat t_shift (Some t_shift))"
    by (rule reach_concat [OF reach_init [OF i] reach_init [OF i]])
  have o: "isOffsetOnly (UFOTransform_concat t_shift (Some t_shift))"
    by (simp add: UFOTransform_concat_def t_shift_def)
  from isOffsetOnly_implies_identity
         [of comp_shift t_shift "UFOTransform_concat t_shift (Some t_shift)"] i r o
  show ?thesis by simp
qed

text \<open>
  The claim as stated fails in the direction from the matrix to the flag: a component
  scaled by 2 inside a component scaled by 1/2 composes to the identity matrix, and the
  flag of the composed transform is False.
\<close>

theorem isOffsetOnly_iff_identity_counterexample:
  "UFOTransform_init comp_double = Inr t_double \<and>
   UFOTransform_init comp_half = Inr t_half \<and>
   reachable (UFOTransform_concat t_double (Some t_half)) \<and>
   linear_is_identity (UFOTransform_concat t_double (Some t_half)) \<and>
   \<not> isOffsetOnly (UFOTransform_concat t_double (Some t_half))"
proof -
  have d: "UFOTransform_init comp_double = Inr t_double"
    by (simp add: UFOTransform_init_closed_form comp_double_def t_double_def)
  have h: "UFOTransform_init comp_half = Inr t_half"
    by (simp add: UFOTransform_init_closed_form comp_half_def t_half_def)
  have r: "reachable (UFOTransform_concat t_double (Some t_half))"
    by (rule reach_concat [OF reach_init [OF d] reach_init [OF h]])
  show ?thesis using d h r
    by (simp add: UFOTransform_concat_def t_double_def t_half_def linear_is_identity_def)
qed


subsection \<open>checkSkipGlyph\<close>


lemma find_required_iff:
  "find_required req hist b = (b \<or> (\<exists>p\<in>set req. p \<in> set hist))"
  by (induction req arbitrary: b) auto

lemma readHashMap_keeps:
  assumes "readHashMap self = Inr self1"
  shows "useHashMap self1 = useHashMap self \<and> useProcessedLayer self1 = useProcessedLayer self \<and>
         requiredHistory self1 = requiredHistory self \<and> files self1 = files self \<and>
         processedLayerGlyphMap self1 = processedLayerGlyphMap self \<and>
         glyphLayerDir self1 = glyphLayerDir self"
  using assms
  by (auto simp: readHashMap_def Let_def split: option.splits hash_entry.splits if_splits)

lemma ensure_hash_map_read_keeps:
  assumes "ensure_hash_map_read self = Inr self1"
  shows "useHashMap self1 = useHashMap self \<and> useProcessedLayer self1 = useProcessedLayer self \<and>
         requiredHistory self1 = requiredHistory self \<and> files self1 = files self \<and>
         processedLayerGlyphMap self1 = processedLayerGlyphMap self \<and>
         glyphLayerDir self1 = glyphLayerDir self"
  using assms readHashMap_keeps [of self self1]
  by (auto simp: ensure_hash_map_read_def split: if_splits)

lemma remove_processed_glyph_keeps:
  "hashMap (remove_processed_glyph b g s) = hashMap s \<and>
   useHashMap (remove_processed_glyph b g s) = useHashMap s \<and>
   useProcessedLayer (remove_processed_glyph b g s) = useProcessedLayer s \<and>
   logged (remove_processed_glyph b g s) = logged s \<and>
   hashMapChanged (remove_processed_glyph b g s) = hashMapChanged s"
  by (simp add: remove_processed_glyph_def split: option.split)

lemma update_not_empty: "length (AList.update k v al) \<noteq> 0"
  by (induction al) auto

lemma ensure_read_idem:
  "length (hashMap s) \<noteq> 0 \<Longrightarrow> ensure_hash_map_read s = Inr s"
  by (simp add: ensure_hash_map_read_def)

text \<open>
  C7: with the hash map enabled and doAll false, a call of checkSkipGlyph for a glyph
  that has no entry (once the map has been read) returns skip = False and leaves the
  entry (hash, [autohint]); the same call again returns skip = True and changes nothing.
\<close>

theorem checkSkipGlyph_twice:
  assumes "useHashMap self"
    and "ensure_hash_map_read self = Inr self1"
    and "map_of (hashMap self1) glyphName = None"
  shows "\<exists>self2. checkSkipGlyph self glyphName newSrcHash False = Inr (False, self2) \<and>
           map_of (hashMap self2) glyphName = Some (GlyphEntry newSrcHash [kAutohintName]) \<and>
           checkSkipGlyph self2 glyphName newSrcHash False = Inr (True, self2)"
proof -
  define self2 where "self2 = snd (decide_skip self1 glyphName newSrcHash False None [])"
  have first: "checkSkipGlyph self glyphName newSrcHash False = Inr (False, self2)"
    using assms by (simp add: checkSkipGlyph_def self2_def decide_skip_def Let_def)
  have hm: "hashMap self2 = AList.update glyphName (GlyphEntry newSrcHash [kAutohintName]) (hashMap self1)"
    by (simp add: self2_def decide_skip_def Let_def remove_processed_glyph_keeps)
  have u: "useHashMap self2"
    using assms ensure_hash_map_read_keeps [OF assms(2)]
    by (simp add: self2_def decide_skip_def Let_def remove_processed_glyph_keeps)
  have entry: "map_of (hashMap self2) glyphName = Some (GlyphEntry newSrcHash [kAutohintName])"
    by (simp add: hm update_conv')
  have ne: "length (hashMap self2) \<noteq> 0"
    unfolding hm by (rule update_not_empty)
  have second: "checkSkipGlyph self2 glyphName newSrcHash False = Inr (True, self2)"
    using u entry ensure_read_idem [OF ne]
    by (simp add: checkSkipGlyph_def decide_skip_def Let_def)
  from first entry second show ?thesis by blast
qed


theorem checkSkipGlyph_twice_witness:
  "\<exists>self2. checkSkipGlyph font_unread ''a'' ''w500'' False = Inr (False, self2) \<and>
      map_of (hashMap self2) ''a'' = Some (GlyphEntry ''w500'' [kAutohintName]) \<and>
      checkSkipGlyph self2 ''a'' ''w500'' False = Inr (True, self2)"
proof -
  have u: "useHashMap font_unread" by (simp add: font_unread_def)
  have r: "ensure_hash_map_read font_unread = Inr (font_unread\<lparr>hashMap := fresh_hash_map\<rparr>)"
    by (simp add: ensure_hash_map_read_def readHashMap_def font_unread_def fresh_hash_map_def
        kAdobHashMapVersionName_def kAdobHashMapVersion_def)
  have a: "map_of (hashMap (font_unread\<lparr>hashMap := fresh_hash_map\<rparr>)) ''a'' = None"
    by (simp add: fresh_hash_map_def kAdobHashMapVersionName_def)
  from checkSkipGlyph_twice [OF u r a] show ?thesis .
qed

text \<open>
  C2: with the hash map enabled and the processed layer in use, when the stored hash
  differs from the new source hash (or there is none), checkSkipGlyph returns skip = True
  exactly when a required tool is in the stored history, and then has logged the error
  that names the required tools; in every case the entry becomes (newHash, [autohint]),
  and the glyph's file in the processed layer does not exist afterwards, with
  deletedGlyph set when it existed before.
\<close>

theorem checkSkipGlyph_source_changed:
  assumes "useHashMap self" and "useProcessedLayer self"
    and "ensure_hash_map_read self = Inr self1"
    and "case map_of (hashMap self1) glyphName of
           None \<Rightarrow> historyList = []
         | Some (GlyphEntry srcHash hist) \<Rightarrow> srcHash \<noteq> newSrcHash \<and> historyList = hist
         | Some (VersionEntry major minor) \<Rightarrow> False"
  shows "\<exists>skip self2.
           checkSkipGlyph self glyphName newSrcHash doAll = Inr (skip, self2) \<and>
           skip = (\<exists>programName \<in> set (requiredHistory self). programName \<in> set historyList) \<and>
           (skip \<longrightarrow> logged self2 =
                      logged self1 @ [LogError glyphName (requiredHistory self) kAutohintName]) \<and>
           map_of (hashMap self2) glyphName = Some (GlyphEntry newSrcHash [kAutohintName]) \<and>
           (\<forall>glyphPath. getGlyphProcessedPath self glyphName = Some glyphPath \<and> glyphPath \<noteq> [] \<longrightarrow>
               glyphPath \<notin> files self2 \<and> (glyphPath \<in> files self \<longrightarrow> deletedGlyph self2))"
proof -
  note k = ensure_hash_map_read_keeps [OF assms(3)]
  define srcHash where "srcHash = (case map_of (hashMap self1) glyphName of
      Some (GlyphEntry h hist) \<Rightarrow> Some h | _ \<Rightarrow> None)"
  define r where "r = decide_skip self1 glyphName newSrcHash doAll srcHash historyList"
  have call: "checkSkipGlyph self glyphName newSrcHash doAll = Inr r"
    using assms by (auto simp: checkSkipGlyph_def r_def srcHash_def split: option.splits hash_entry.splits)
  have differs: "srcHash \<noteq> Some newSrcHash"
    using assms(4) by (auto simp: srcHash_def split: option.splits hash_entry.splits)
  have pp: "getGlyphProcessedPath self1 glyphName = getGlyphProcessedPath self glyphName"
    using k by (simp add: getGlyphProcessedPath_def split: option.split)
  have hist0: "(\<exists>p\<in>set (requiredHistory self). p \<in> set historyList) \<Longrightarrow> 0 < length historyList"
    by auto
  have skip: "fst r = (\<exists>programName \<in> set (requiredHistory self). programName \<in> set historyList)"
    using differs assms(2) k hist0
    by (auto simp: r_def decide_skip_def Let_def find_required_iff)
  have lg: "fst r \<longrightarrow> logged (snd r) =
              logged self1 @ [LogError glyphName (requiredHistory self) kAutohintName]"
    using differs k
    by (simp add: r_def decide_skip_def Let_def remove_processed_glyph_keeps)
  have entry: "map_of (hashMap (snd r)) glyphName = Some (GlyphEntry newSrcHash [kAutohintName])"
    using differs
    by (simp add: r_def decide_skip_def Let_def remove_processed_glyph_keeps update_conv')
  have del: "\<forall>glyphPath. getGlyphProcessedPath self glyphName = Some glyphPath \<and> glyphPath \<noteq> [] \<longrightarrow>
               glyphPath \<notin> files (snd r) \<and> (glyphPath \<in> files self \<longrightarrow> deletedGlyph (snd r))"
    using differs k pp
    by (auto simp: r_def decide_skip_def Let_def remove_processed_glyph_def getGlyphProcessedPath_def
        split: option.splits if_splits)
  have call': "checkSkipGlyph self glyphName newSrcHash doAll = Inr (fst r, snd r)"
    using call by simp
  from call' skip lg entry del show ?thesis
    by (intro exI [of _ "fst r"] exI [of _ "snd r"] conjI)
qed

theorem checkSkipGlyph_source_changed_witness:
  "\<exists>self2. checkSkipGlyph font_edited ''a'' ''w600'' False = Inr (True, self2) \<and>
      logged self2 = [LogError ''a'' [''checkOutlines''] kAutohintName] \<and>
      map_of (hashMap self2) ''a'' = Some (GlyphEntry ''w600'' [kAutohintName]) \<and>
      ''font.ufo/processed/a.glif'' \<notin> files self2 \<and> deletedGlyph self2"
proof -
  have u: "useHashMap font_edited" and p: "useProcessedLayer font_edited"
    by (simp_all add: font_edited_def font_unread_def)
  have r: "ensure_hash_map_read font_edited = Inr font_edited"
    by (simp add: ensure_hash_map_read_def font_edited_def)
  have e: "case map_of (hashMap font_edited) ''a'' of
           None \<Rightarrow> [''checkOutlines''] = []
         | Some (GlyphEntry srcHash hist) \<Rightarrow> srcHash \<noteq> ''w600'' \<and> [''checkOutlines''] = hist
         | Some (VersionEntry major minor) \<Rightarrow> False"
    by (simp add: font_edited_def)
  have g: "getGlyphProcessedPath font_edited ''a'' = Some ''font.ufo/processed/a.glif''"
    by (simp add: getGlyphProcessedPath_def font_edited_def font_unread_def os_path_join_def)
  have q: "requiredHistory font_edited = [''checkOutlines'']"
      "logged font_edited = []" "''font.ufo/processed/a.glif'' \<in> files font_edited"
    by (simp_all add: font_edited_def font_unread_def)
  from checkSkipGlyph_source_changed [OF u p r e, of False]
  obtain skip self2 where
    "checkSkipGlyph font_edited ''a'' ''w600'' False = Inr (skip, self2)"
    "skip = (\<exists>programName \<in> set (requiredHistory font_edited). programName \<in> set [''checkOutlines''])"
    "skip \<longrightarrow> logged self2 = logged font_edited @ [LogError ''a'' (requiredHistory font_edited) kAutohintName]"
    "map_of (hashMap self2) ''a'' = Some (GlyphEntry ''w600'' [kAutohintName])"
    "\<forall>glyphPath. getGlyphProcessedPath font_edited ''a'' = Some glyphPath \<and> glyphPath \<noteq> [] \<longrightarrow>
               glyphPath \<notin> files self2 \<and> (glyphPath \<in> files font_edited \<longrightarrow> deletedGlyph self2)"
    by blast
  with g q show ?thesis by (intro exI [of _ self2]) simp
qed




subsection \<open>Hint masks\<close>



text \<open>
  C5 (the code at the failing input): a mask that holds one horizontal counter group and
  no other hint serializes to an empty stems array, as does the hint dict decoded from a
  bez string whose only hints are the three \<open>rv\<close> of that group; beside a plain
  vertical stem only the vertical stem is serialized; the same counter group on the
  vertical axis is serialized.
\<close>

theorem addHintSet_drops_horizontal_counter_group:
  "addHintSet mask_hstem3_only = Inr \<lparr>pointTag = IndexedName ''hintSet'' 0, stems = []\<rparr> \<and>
   convertBezToOutline
     [Num 0, Num 10, Op ''rv'', Num 20, Num 10, Op ''rv'', Num 40, Num 10, Op ''rv'',
      Num 0, Num 0, Op ''mt'', Num 10, Num 0, Op ''dt'', Num 10, Num 10, Op ''dt'', Op ''cp''] =
     Inr (Decoded
            [[pt (Some ''line'') 0 0, pt (Some ''line'') 10 0, pt (Some ''line'') 10 10]]
            (Some \<lparr>hintSets = [\<lparr>pointTag = IndexedName ''hintSet'' 0, stems = []\<rparr>],
                   flexNames = None\<rparr>)) \<and>
   addHintSet mask_hstem3_vstem =
     Inr \<lparr>pointTag = IndexedName ''hintSet'' 0,
          stems = [StemText ''vstem'' [PyInt 100, PyInt 32]]\<rparr> \<and>
   addHintSet mask_vstem3_only =
     Inr \<lparr>pointTag = IndexedName ''hintSet'' 0,
          stems = [StemText ''vstem3'' [PyInt 0, PyInt 10, PyInt 20, PyInt 10, PyInt 40, PyInt 10]]\<rparr>"
  by code_simp







subsection \<open>The encoder\<close>

lemma py_round_of_int [simp]: "py_round (of_int i) = i"
  by (simp add: py_round_def)

lemma py_round_numeral [simp]:
  "py_round (numeral n) = numeral n" "py_round (- numeral n) = - numeral n"
  "py_round 0 = 0" "py_round 1 = 1"
  using py_round_of_int [of "numeral n"] py_round_of_int [of "- numeral n"]
    py_round_of_int [of 0] py_round_of_int [of 1]
  by simp_all

lemma convert_points_ends_with_curve:
  assumes "convert_points dec tr (ps @ [p]) argStack = Inr ops"
    and "point_type_of p = ''curve''"
  shows "ops \<noteq> [] \<and>
         (\<exists>a0 a1 a2 a3. last ops =
            bez_op dec [a0, a1, a2, a3, fst (point_coords dec tr p),
                        snd (point_coords dec tr p)] ''ct'')"
  using assms(1)
proof (induction ps arbitrary: argStack ops)
  case Nil
  obtain x y where xy: "point_coords dec tr p = (x, y)" by (cases "point_coords dec tr p")
  from Nil assms(2) xy have "length argStack = 4"
    and "ops = [bez_op dec [argStack ! 0, argStack ! 1, argStack ! 2, argStack ! 3, x, y] ''ct'']"
    by (auto split: if_splits)
  with xy show ?case by fastforce
next
  case (Cons q ps)
  obtain x y where xy: "point_coords dec tr q = (x, y)" by (cases "point_coords dec tr q")
  from Cons.prems xy obtain a1 ops1 where
    r: "convert_points dec tr (ps @ [p]) a1 = Inr ops1" and o: "ops = ops1 \<or> (\<exists>l. ops = l # ops1)"
    by (auto split: if_splits sum.splits)
  from Cons.IH [OF r] have ne: "ops1 \<noteq> []"
    and ex: "\<exists>a0 a1 a2 a3. last ops1 =
            bez_op dec [a0, a1, a2, a3, fst (point_coords dec tr p),
                        snd (point_coords dec tr p)] ''ct''"
    by simp_all
  from o ne have "ops \<noteq> []" and "last ops = last ops1" by auto
  with ex show ?case by simp
qed

text \<open>
  C3 (as amended): for a contour whose first point has kind curve, the encoder emits a
  move-to at the first point's transformed (and, unless decimals are allowed, rounded)
  coordinate and then iterates over the list rotated so that the first point is last;
  for kind line it emits the same move-to and iterates over the remaining points only.
  An error of the iteration is the error of the contour.  When the contour is encoded,
  the move-to is its first line and \<open>cp\<close> its last, and for kind curve the line
  before \<open>cp\<close> is the curve-to that ends at the first point.
\<close>

theorem first_point_line_or_curve:
  assumes "point_type_of p = ''curve'' \<or> point_type_of p = ''line''"
  shows "convert_contour allowDecimals transform (p # ps) =
           (case convert_points allowDecimals transform
                   (if point_type_of p = ''curve'' then ps @ [p] else ps) [] of
              Inl e \<Rightarrow> Inl e
            | Inr ops \<Rightarrow>
                Inr (bez_op allowDecimals
                       [fst (point_coords allowDecimals transform p),
                        snd (point_coords allowDecimals transform p)] ''mt''
                     # ops @ [[Op ''cp'']])) \<and>
         (\<forall>ls. convert_contour allowDecimals transform (p # ps) = Inr ls \<longrightarrow>
            hd ls = bez_op allowDecimals
                      [fst (point_coords allowDecimals transform p),
                       snd (point_coords allowDecimals transform p)] ''mt'' \<and>
            last ls = [Op ''cp''] \<and>
            (point_type_of p = ''curve'' \<longrightarrow>
               (\<exists>a0 a1 a2 a3. last (butlast ls) =
                  bez_op allowDecimals
                    [a0, a1, a2, a3, fst (point_coords allowDecimals transform p),
                     snd (point_coords allowDecimals transform p)] ''ct'')))"
proof -
  define mt where "mt = bez_op allowDecimals
                       [fst (point_coords allowDecimals transform p),
                        snd (point_coords allowDecimals transform p)] ''mt''"
  have eq: "convert_contour allowDecimals transform (p # ps) =
           (case convert_points allowDecimals transform
                   (if point_type_of p = ''curve'' then ps @ [p] else ps) [] of
              Inl e \<Rightarrow> Inl e
            | Inr ops \<Rightarrow> Inr (mt # ops @ [[Op ''cp'']]))"
    using assms
    by (auto simp: convert_contour_def iterate_contour_def mt_def split: prod.splits sum.splits)
  have shape: "hd ls = mt \<and> last ls = [Op ''cp''] \<and>
            (point_type_of p = ''curve'' \<longrightarrow>
               (\<exists>a0 a1 a2 a3. last (butlast ls) =
                  bez_op allowDecimals
                    [a0, a1, a2, a3, fst (point_coords allowDecimals transform p),
                     snd (point_coords allowDecimals transform p)] ''ct''))"
    if "convert_contour allowDecimals transform (p # ps) = Inr ls" for ls
  proof -
    from that eq obtain ops where
      ops: "convert_points allowDecimals transform
              (if point_type_of p = ''curve'' then ps @ [p] else ps) [] = Inr ops"
      and ls: "ls = mt # ops @ [[Op ''cp'']]"
      by (auto split: sum.splits)
    have "\<exists>a0 a1 a2 a3. last (butlast ls) =
                  bez_op allowDecimals
                    [a0, a1, a2, a3, fst (point_coords allowDecimals transform p),
                     snd (point_coords allowDecimals transform p)] ''ct''"
      if c: "point_type_of p = ''curve''"
    proof -
      from ops c have "convert_points allowDecimals transform (ps @ [p]) [] = Inr ops" by simp
      from convert_points_ends_with_curve [OF this c] ls show ?thesis
        by (simp add: butlast_append)
    qed
    with ls show ?thesis by simp
  qed
  from eq shape show ?thesis unfolding mt_def by blast
qed

theorem first_point_line_or_curve_witness:
  "convert_contour False None contour_curve_first =
     Inr [[Num 0, Num 0, Op ''mt''], [Num 10, Num 0, Op ''dt''],
          [Num 10, Num 5, Num 5, Num 10, Num 0, Num 0, Op ''ct''], [Op ''cp'']] \<and>
   convert_contour False None contour_two_lines =
     Inr [[Num 0, Num 0, Op ''mt''], [Num 10, Num 0, Op ''dt''], [Op ''cp'']]"
proof -
  have c: "point_type_of (pt (Some ''curve'') 0 0) = ''curve''"
    and l: "point_type_of (pt (Some ''line'') 0 0) = ''line''"
    by (simp_all add: point_type_of_def pt_def)
  from first_point_line_or_curve [of "pt (Some ''curve'') 0 0" False None
         "[pt (Some ''line'') 10 0, pt None 10 5, pt None 5 10]"] c
       first_point_line_or_curve [of "pt (Some ''line'') 0 0" False None
         "[pt (Some ''line'') 10 0]"] l
  show ?thesis
    by (simp add: contour_curve_first_def contour_two_lines_def pt_def point_type_of_def
        point_coords_def bez_op_def fmt_coord_def)
qed

text \<open>
  The claim as stated fails for a first point of kind line: the list is not rotated,
  and no line-to back to the first point is emitted.
\<close>

theorem first_point_line_counterexample:
  "convert_contour False None contour_two_lines =
     Inr [[Num 0, Num 0, Op ''mt''], [Num 10, Num 0, Op ''dt''], [Op ''cp'']] \<and>
   spec_rotate_first False None contour_two_lines =
     Inr [[Num 0, Num 0, Op ''mt''], [Num 10, Num 0, Op ''dt''], [Num 0, Num 0, Op ''dt''],
          [Op ''cp'']] \<and>
   convert_contour False None contour_two_lines \<noteq> spec_rotate_first False None contour_two_lines"
  by (simp add: convert_contour_def spec_rotate_first_def iterate_contour_def
      contour_two_lines_def pt_def point_type_of_def point_coords_def bez_op_def fmt_coord_def)

text \<open>
  C4 (the code at the failing input): a contour of three points that all carry
  \<open>type="offcurve"\<close> starts with an off-curve point and ends with a point whose kind is
  neither line nor curve; the encoder raises no error and emits no move-to, only
  \<open>cp\<close>.
\<close>

theorem first_point_offcurve_unhandled_last:
  "point_type_of (hd contour_all_offcurve) = ''offcurve'' \<and>
   ptype (last contour_all_offcurve) = Some ''offcurve'' \<and>
   convert_contour False None contour_all_offcurve = Inr [[Op ''cp'']]"
  by (simp add: convert_contour_def iterate_contour_def
      contour_all_offcurve_def pt_def point_type_of_def point_coords_def)




subsection \<open>Component nesting\<close>

text \<open>
  C8: a call of the encoder or of the hash builder at a level above 10 raises the
  UFOParseError for too many levels of reference, whatever its other arguments; a chain
  of components nested exactly 10 deep (the innermost outline is reached at level 10)
  is encoded and hashed without error, and a chain nested 11 deep raises the error in
  both.
\<close>

theorem component_depth_limit:
  "(level > 10 \<longrightarrow>
      convertGlyphOutlineToBezString ufoFontData outlineXML transform level = Inl too_many_levels \<and>
      buildGlyphHashValue b self width hashedXML glyphName useDefaultGlyphDir level
        = Inl too_many_levels) \<and>
   convertGlyphOutlineToBezString (chain_font 10) (Some (chain_outline 10 0)) None 0 =
     Inr [Num 0, Num 0, Op ''mt'', Num 10, Num 0, Op ''dt'', Op ''cp''] \<and>
   \<not> isl (buildGlyphHashValue example_builtins (chain_font 10) 500 (Some (chain_xml 10 0))
            (chain_name 0) True 0) \<and>
   convertGlyphOutlineToBezString (chain_font 11) (Some (chain_outline 11 0)) None 0 =
     Inl too_many_levels \<and>
   buildGlyphHashValue example_builtins (chain_font 11) 500 (Some (chain_xml 11 0))
     (chain_name 0) True 0 = Inl too_many_levels"
proof -
  have deep: "level > 10 \<longrightarrow>
      convertGlyphOutlineToBezString ufoFontData outlineXML transform level = Inl too_many_levels \<and>
      buildGlyphHashValue b self width hashedXML glyphName useDefaultGlyphDir level
        = Inl too_many_levels"
    by simp
  have e10: "convertGlyphOutlineToBezString (chain_font 10) (Some (chain_outline 10 0)) None 0 =
     Inr [Num 0, Num 0, Op ''mt'', Num 10, Num 0, Op ''dt'', Op ''cp'']"
    by code_simp
  have h10: "\<not> isl (buildGlyphHashValue example_builtins (chain_font 10) 500
                      (Some (chain_xml 10 0)) (chain_name 0) True 0)"
    by code_simp
  have e11: "convertGlyphOutlineToBezString (chain_font 11) (Some (chain_outline 11 0)) None 0 =
     Inl too_many_levels"
    by code_simp
  have h11: "buildGlyphHashValue example_builtins (chain_font 11) 500 (Some (chain_xml 11 0))
     (chain_name 0) True 0 = Inl too_many_levels"
    by code_simp
  from deep e10 h10 e11 h11 show ?thesis by blast
qed

theorem component_depth_limit_witness:
  "convertGlyphOutlineToBezString (chain_font 11) (Some (chain_outline 11 11)) None 11 =
     Inl too_many_levels \<and>
   buildGlyphHashValue example_builtins (chain_font 11) 500 (Some (chain_xml 11 11))
     (chain_name 0) True 11 = Inl too_many_levels"
  using component_depth_limit [of 11 "chain_font 11" "Some (chain_outline 11 11)" None
      example_builtins "chain_font 11" 500 "Some (chain_xml 11 11)" "chain_name 0" True]
  by simp






subsection \<open>The round trip through the bez string\<close>




lemma num_value_convertCoords [simp]:
  "num_value (fst (convertCoords x y)) = x" "num_value (snd (convertCoords x y)) = y"
  by (simp_all add: convertCoords_def)

lemma new_point_fields [simp]:
  "num_value (px (new_point x y k)) = x" "num_value (py (new_point x y k)) = y"
  "ptype (new_point x y k) = k" "pname (new_point x y k) = None"
  "(new_point x y k)\<lparr>pname := None\<rparr> = new_point x y k"
  by (simp_all add: new_point_def split: prod.split, simp_all add: convertCoords_def)

lemma point_type_of_new_point [simp]:
  "point_type_of (new_point x y (Some k)) = k"
  "point_type_of (new_point x y None) = ''offcurve''"
  by (simp_all add: point_type_of_def)


lemma on_curve_Nil [simp]: "on_curve [] = []"
  by (simp add: on_curve_def)

lemma on_curve_Cons:
  "on_curve (p # ps) =
     (if point_type_of p \<noteq> ''offcurve''
      then (point_type_of p, num_value (px p), num_value (py p)) # on_curve ps
      else on_curve ps)"
  by (simp add: on_curve_def)

lemma on_curve_new_point [simp]:
  "k \<noteq> ''offcurve'' \<Longrightarrow> on_curve [new_point x y (Some k)] = [(k, x, y)]"
  "on_curve [new_point x y None] = []"
  by (simp_all add: on_curve_Cons)






lemma point_type_of_update [simp]: "point_type_of (p\<lparr>ptype := Some k\<rparr>) = k"
  by (simp add: point_type_of_def)



















end
